theory Spec2Isabelle
  imports Main
begin

section \<open>Data model of the appointments router\<close>

text \<open>
  The router \<^verbatim>\<open>routers/appointments.py\<close> works on three tables (appointments, patients,
  users) through an ORM session, raises \<^verbatim>\<open>HTTPException\<close> and calls three e-mail
  senders. The model keeps the tables as lists in storage order (a query without
  \<^verbatim>\<open>ORDER BY\<close> walks the rows in that order and \<^verbatim>\<open>.first()\<close> takes the first match),
  returns errors as \<open>Inl\<close> and returns, beside the handler's value, the session after the
  commit and the e-mails the handler dispatched.
\<close>

text \<open>
  Modelled from the spec: the enumerations \<^verbatim>\<open>AppointmentStatus\<close> and \<^verbatim>\<open>UserType\<close> of
  \<^verbatim>\<open>models/models.py\<close>. The data model gives an appointment the two lifecycle states
  SCHEDULED and CANCELED, and a user a type discriminator whose one named value is the
  practitioner; the source spells them \<^verbatim>\<open>AGENDADO\<close>, \<^verbatim>\<open>CANCELADO\<close> and \<^verbatim>\<open>PSICOLOGO\<close>.
\<close>

datatype AppointmentStatus = AGENDADO | CANCELADO

datatype UserType = PSICOLOGO | PACIENTE

text \<open>
  Modelled from the spec: the rows \<^verbatim>\<open>User\<close> and \<^verbatim>\<open>Patient\<close> of \<^verbatim>\<open>models/models.py\<close>, with the
  columns the router reads (\<^verbatim>\<open>id\<close>, \<^verbatim>\<open>name\<close>, \<^verbatim>\<open>email\<close>, \<^verbatim>\<open>type\<close>). The column names are
  prefixed, since a record field is a constant of the theory.
\<close>

record User =
  user_id :: int
  user_name :: string
  user_email :: string
  user_type :: UserType

record Patient =
  pat_id :: int
  pat_name :: string
  pat_email :: string

text \<open>
  Modelled from the spec: the schema \<^verbatim>\<open>AppointmentCreate\<close> of \<^verbatim>\<open>schemas/schemas.py\<close>, with
  the four fields the spec names for the creation payload, and the row \<^verbatim>\<open>Appointment\<close>,
  which the router builds as \<^verbatim>\<open>Appointment(**appointment_data.dict(), status=...)\<close>: the
  payload's fields, the identifier assigned by storage and the status. Dates and slot
  labels are strings, as \<^verbatim>\<open>get_available_slots\<close> declares them.
\<close>

record AppointmentCreate =
  patient_id :: int
  psychologist_id :: int
  date :: string
  time :: string

record Appointment = AppointmentCreate +
  appointment_id :: int
  status :: AppointmentStatus

text \<open>
  Modelled from the spec: the schema \<^verbatim>\<open>AppointmentUpdate\<close> of \<^verbatim>\<open>schemas/schemas.py\<close>. The
  spec's lifecycle says that update mutates the date, time and status fields, each of
  them optional in a partial payload. \<open>None\<close> is a field the caller did not set.
\<close>

record AppointmentUpdate =
  upd_date :: "string option"
  upd_time :: "string option"
  upd_status :: "AppointmentStatus option"

record Session =
  appointments :: "Appointment list"
  patients :: "Patient list"
  users :: "User list"

datatype HTTPException = HTTPException (status_code: nat) (detail: string)

text \<open>The three senders of \<^verbatim>\<open>services/email_service.py\<close>, as the messages they are asked to send.\<close>

datatype Email =
  send_email_appointment (client_email: string) (client_name: string) string string
| send_email_appointment_rescheduled (client_email: string) (client_name: string) string string
| send_email_appointment_canceled (client_email: string) (client_name: string) string

section \<open>Storage\<close>

text \<open>
  Modelled from the spec: the identifier "assigned by storage on creation", unique among
  the stored appointments. The model takes the successor of the largest identifier in the
  table (and 1 for an empty table), as an auto-incremented integer key does in a table
  that never loses a row.
\<close>

definition next_id :: "Appointment list \<Rightarrow> int" where
  "next_id rows = fold max (map appointment_id rows) 0 + 1"

text \<open>
  The commit of a changed row: the row that the query resolved (the first one that
  satisfies \<open>P\<close>) is replaced by its new value, every other row stays.
\<close>

fun write_back :: "('a \<Rightarrow> bool) \<Rightarrow> 'a \<Rightarrow> 'a list \<Rightarrow> 'a list" where
  "write_back P y [] = []"
| "write_back P y (x # xs) = (if P x then y # xs else x # write_back P y xs)"

section \<open>The handlers\<close>

text \<open>The details are Python strings; the accented letters are written by code point.\<close>

definition detail_unavailable :: string where
  "detail_unavailable =
     ''Hor'' @ [CHR 0xE1] @ ''rio n'' @ [CHR 0xE3] @ ''o dispon'' @ [CHR 0xED] @ ''vel''"

definition detail_not_found :: string where
  "detail_not_found = ''Agendamento n'' @ [CHR 0xE3] @ ''o encontrado''"

definition detail_forbidden :: string where
  "detail_forbidden =
     ''Sem permiss'' @ [CHR 0xE3] @ ''o para alterar este agendamento''"

definition HTTP_400_BAD_REQUEST :: nat where "HTTP_400_BAD_REQUEST = 400"
definition HTTP_403_FORBIDDEN :: nat where "HTTP_403_FORBIDDEN = 403"
definition HTTP_404_NOT_FOUND :: nat where "HTTP_404_NOT_FOUND = 404"

subsection \<open>Listing\<close>

definition get_appointments :: "User \<Rightarrow> Session \<Rightarrow> Appointment list" where
  "get_appointments current_user db =
     (if user_type current_user = PSICOLOGO
      then filter (\<lambda>a. psychologist_id a = user_id current_user) (appointments db)
      else case find (\<lambda>p. pat_email p = user_email current_user) (patients db) of
             None \<Rightarrow> []
           | Some patient \<Rightarrow> filter (\<lambda>a. patient_id a = pat_id patient) (appointments db))"

subsection \<open>Creation\<close>

definition slot_taken :: "AppointmentCreate \<Rightarrow> Appointment \<Rightarrow> bool" where
  "slot_taken appointment_data a \<longleftrightarrow>
     psychologist_id a = psychologist_id appointment_data \<and>
     date a = date appointment_data \<and>
     time a = time appointment_data \<and>
     status a = AGENDADO"

definition new_appointment :: "AppointmentCreate \<Rightarrow> int \<Rightarrow> Appointment" where
  "new_appointment appointment_data i =
     \<lparr>patient_id = patient_id appointment_data,
      psychologist_id = psychologist_id appointment_data,
      date = date appointment_data,
      time = time appointment_data,
      appointment_id = i,
      status = AGENDADO\<rparr>"

definition create_appointment ::
  "AppointmentCreate \<Rightarrow> User \<Rightarrow> Session \<Rightarrow> HTTPException + (Appointment \<times> Session \<times> Email list)"
where
  "create_appointment appointment_data current_user db =
     (case find (slot_taken appointment_data) (appointments db) of
        Some existing \<Rightarrow> Inl (HTTPException HTTP_400_BAD_REQUEST detail_unavailable)
      | None \<Rightarrow>
          let db_appointment = new_appointment appointment_data (next_id (appointments db));
              db' = db\<lparr>appointments := appointments db @ [db_appointment]\<rparr>
          in Inr (db_appointment, db',
                  case find (\<lambda>p. pat_id p = patient_id db_appointment) (patients db') of
                    Some patient \<Rightarrow>
                      [send_email_appointment (pat_email patient) (pat_name patient)
                         (date db_appointment) (time db_appointment)]
                  | None \<Rightarrow> []))"

subsection \<open>Update\<close>

text \<open>
  \<^verbatim>\<open>update_data.dict(exclude_unset=True).items()\<close>: the fields the caller set, in the
  schema's order, each with its value; \<^verbatim>\<open>setattr\<close> writes one of them.
\<close>

datatype field_value = Date string | Time string | Status AppointmentStatus

definition dict_exclude_unset :: "AppointmentUpdate \<Rightarrow> field_value list" where
  "dict_exclude_unset update_data =
     (case upd_date update_data of None \<Rightarrow> [] | Some v \<Rightarrow> [Date v]) @
     (case upd_time update_data of None \<Rightarrow> [] | Some v \<Rightarrow> [Time v]) @
     (case upd_status update_data of None \<Rightarrow> [] | Some v \<Rightarrow> [Status v])"

fun setattr :: "Appointment \<Rightarrow> field_value \<Rightarrow> Appointment" where
  "setattr appointment (Date v) = appointment\<lparr>date := v\<rparr>"
| "setattr appointment (Time v) = appointment\<lparr>time := v\<rparr>"
| "setattr appointment (Status v) = appointment\<lparr>status := v\<rparr>"

definition rescheduled_mail :: "Appointment \<Rightarrow> Session \<Rightarrow> Email list" where
  "rescheduled_mail appointment db =
     (case find (\<lambda>p. pat_id p = patient_id appointment) (patients db) of
        Some patient \<Rightarrow>
          [send_email_appointment_rescheduled (pat_email patient) (pat_name patient)
             (date appointment) (time appointment)]
      | None \<Rightarrow> [])"

definition update_appointment ::
  "int \<Rightarrow> AppointmentUpdate \<Rightarrow> User \<Rightarrow> Session \<Rightarrow>
     HTTPException + (Appointment \<times> Session \<times> Email list)"
where
  "update_appointment aid update_data current_user db =
     (case find (\<lambda>a. appointment_id a = aid) (appointments db) of
        None \<Rightarrow> Inl (HTTPException HTTP_404_NOT_FOUND detail_not_found)
      | Some appointment \<Rightarrow>
          if user_type current_user = PSICOLOGO \<and>
             psychologist_id appointment \<noteq> user_id current_user
          then Inl (HTTPException HTTP_403_FORBIDDEN detail_forbidden)
          else
            let old_date = date appointment;
                old_time = time appointment;
                appointment' = fold (\<lambda>fv a. setattr a fv) (dict_exclude_unset update_data) appointment;
                db' = db\<lparr>appointments :=
                         write_back (\<lambda>a. appointment_id a = aid) appointment' (appointments db)\<rparr>
            in Inr (appointment', db',
                    if date appointment' \<noteq> old_date \<or> time appointment' \<noteq> old_time
                    then rescheduled_mail appointment' db'
                    else []))"

subsection \<open>Cancellation\<close>

definition cancel_message :: "(string \<times> string) list" where
  "cancel_message = [(''message'', ''Agendamento cancelado com sucesso'')]"

definition cancel_appointment ::
  "int \<Rightarrow> User \<Rightarrow> Session \<Rightarrow> HTTPException + ((string \<times> string) list \<times> Session \<times> Email list)"
where
  "cancel_appointment aid current_user db =
     (case find (\<lambda>a. appointment_id a = aid) (appointments db) of
        None \<Rightarrow> Inl (HTTPException HTTP_404_NOT_FOUND detail_not_found)
      | Some appointment \<Rightarrow>
          let appointment' = appointment\<lparr>status := CANCELADO\<rparr>;
              db' = db\<lparr>appointments :=
                       write_back (\<lambda>a. appointment_id a = aid) appointment' (appointments db)\<rparr>
          in Inr (cancel_message, db',
                  case (find (\<lambda>p. pat_id p = patient_id appointment') (patients db'),
                        find (\<lambda>u. user_id u = psychologist_id appointment') (users db')) of
                    (Some patient, Some psychologist) \<Rightarrow>
                      [send_email_appointment_canceled (pat_email patient) (pat_name patient)
                         (user_name psychologist)]
                  | _ \<Rightarrow> []))"

subsection \<open>Available slots\<close>

definition all_slots :: "string list" where
  "all_slots = [''09:00'', ''10:00'', ''11:00'', ''14:00'', ''15:00'', ''16:00'', ''17:00'']"

definition get_available_slots :: "string \<Rightarrow> int \<Rightarrow> Session \<Rightarrow> string list" where
  "get_available_slots d pid db =
     (let occupied = filter (\<lambda>a. date a = d \<and> psychologist_id a = pid \<and> status a = AGENDADO)
                       (appointments db);
          occupied_times = map time occupied
      in filter (\<lambda>slot. slot \<notin> set occupied_times) all_slots)"

text \<open>
  Modelled from the spec: the domain of \<^verbatim>\<open>Appointment.time\<close>, whose declaration
  (\<^verbatim>\<open>models/models.py\<close>, \<^verbatim>\<open>schemas/schemas.py\<close>) is not in the router. The data model makes
  the time of an appointment "one of a fixed enumerated set of daily slot labels", the
  labels that \<^verbatim>\<open>get_available_slots\<close> lists.
\<close>

definition slot_label :: "string \<Rightarrow> bool" where
  "slot_label t \<longleftrightarrow> t \<in> set all_slots"

section \<open>Sequences of requests\<close>

text \<open>
  The three state-changing requests of this layer, each with its caller, and the storage
  after a request: a request that raises leaves the storage as it was (the handlers raise
  before they write).
\<close>

datatype request =
  Create AppointmentCreate
| Update int AppointmentUpdate
| Cancel int

fun handle :: "User \<times> request \<Rightarrow> Session \<Rightarrow> Session" where
  "handle (current_user, Create appointment_data) db =
     (case create_appointment appointment_data current_user db of
        Inl e \<Rightarrow> db | Inr (a, db', mails) \<Rightarrow> db')"
| "handle (current_user, Update aid update_data) db =
     (case update_appointment aid update_data current_user db of
        Inl e \<Rightarrow> db | Inr (a, db', mails) \<Rightarrow> db')"
| "handle (current_user, Cancel aid) db =
     (case cancel_appointment aid current_user db of
        Inl e \<Rightarrow> db | Inr (msg, db', mails) \<Rightarrow> db')"

definition run :: "(User \<times> request) list \<Rightarrow> Session \<Rightarrow> Session" where
  "run rs db = fold handle rs db"

text \<open>A request that writes the status AGENDADO through an update payload.\<close>

fun sets_scheduled :: "request \<Rightarrow> bool" where
  "sets_scheduled (Update aid update_data) = (upd_status update_data = Some AGENDADO)"
| "sets_scheduled (Create appointment_data) = False"
| "sets_scheduled (Cancel aid) = False"

definition empty_db :: Session where
  "empty_db = \<lparr>appointments = [], patients = [], users = []\<rparr>"

section \<open>Example data\<close>

text \<open>
  A small storage state: practitioner 2 has 10:00 and 15:00 scheduled on 2025-01-10, a
  canceled 09:00 on 2025-01-11, 14:00 scheduled on 2025-01-12 and 11:00 scheduled on
  2025-01-13.
\<close>

definition appt1 :: Appointment where
  "appt1 = \<lparr>patient_id = 1, psychologist_id = 2, date = ''2025-01-10'', time = ''10:00'',
            appointment_id = 1, status = AGENDADO\<rparr>"

definition appt2 :: Appointment where
  "appt2 = \<lparr>patient_id = 3, psychologist_id = 2, date = ''2025-01-10'', time = ''15:00'',
            appointment_id = 2, status = AGENDADO\<rparr>"

definition appt3 :: Appointment where
  "appt3 = \<lparr>patient_id = 1, psychologist_id = 2, date = ''2025-01-11'', time = ''09:00'',
            appointment_id = 3, status = CANCELADO\<rparr>"

definition appt4 :: Appointment where
  "appt4 = \<lparr>patient_id = 1, psychologist_id = 2, date = ''2025-01-12'', time = ''14:00'',
            appointment_id = 4, status = AGENDADO\<rparr>"

definition appt5 :: Appointment where
  "appt5 = \<lparr>patient_id = 3, psychologist_id = 2, date = ''2025-01-13'', time = ''11:00'',
            appointment_id = 5, status = AGENDADO\<rparr>"

definition ana :: Patient where
  "ana = \<lparr>pat_id = 1, pat_name = ''Ana'', pat_email = ''ana@example.org''\<rparr>"

definition dr_two :: User where
  "dr_two = \<lparr>user_id = 2, user_name = ''Bia'', user_email = ''bia@example.org'',
             user_type = PSICOLOGO\<rparr>"

definition dr_five :: User where
  "dr_five = \<lparr>user_id = 5, user_name = ''Caio'', user_email = ''caio@example.org'',
              user_type = PSICOLOGO\<rparr>"

definition user_seven :: User where
  "user_seven = \<lparr>user_id = 7, user_name = ''Davi'', user_email = ''davi@example.org'',
                 user_type = PACIENTE\<rparr>"

definition db_example :: Session where
  "db_example = \<lparr>appointments = [appt1, appt2, appt3, appt4, appt5], patients = [ana],
                 users = [dr_two, dr_five, user_seven]\<rparr>"

definition example_requests :: "(User \<times> request) list" where
  "example_requests =
     [(user_seven, Create \<lparr>patient_id = 1, psychologist_id = 5, date = ''2025-01-10'',
                           time = ''10:00''\<rparr>),
      (dr_five, Cancel 4),
      (dr_two, Update 3 \<lparr>upd_date = Some ''2025-02-01'', upd_time = Some ''11:00'',
                         upd_status = None\<rparr>),
      (dr_two, Update 2 \<lparr>upd_date = None, upd_time = None, upd_status = Some CANCELADO\<rparr>),
      (dr_two, Cancel 1)]"

definition revert_requests :: "(User \<times> request) list" where
  "revert_requests =
     [(user_seven, Create \<lparr>patient_id = 1, psychologist_id = 2, date = ''2025-01-10'',
                           time = ''10:00''\<rparr>),
      (user_seven, Cancel 1),
      (user_seven, Update 1 \<lparr>upd_date = None, upd_time = None, upd_status = Some AGENDADO\<rparr>)]"

lemmas example_defs =
  appt1_def appt2_def appt3_def appt4_def appt5_def ana_def dr_two_def dr_five_def
  user_seven_def db_example_def

section \<open>Storage lemmas\<close>

lemma write_back_length: "length (write_back P y xs) = length xs"
  by (induction xs) auto

lemma write_back_find_None: "find P xs = None \<Longrightarrow> write_back P y xs = xs"
  by (induction xs) (auto split: if_splits)

text \<open>The commit touches exactly the position of the row that the query resolved.\<close>

lemma write_back_list_update:
  "find P xs = Some x \<Longrightarrow>
     \<exists>i < length xs. xs ! i = x \<and> (\<forall>j < i. \<not> P (xs ! j)) \<and> write_back P y xs = xs[i := y]"
proof (induction xs)
  case Nil
  then show ?case by simp
next
  case (Cons z zs)
  show ?case
  proof (cases "P z")
    case True
    with Cons.prems have "z = x" by simp
    with True show ?thesis by (intro exI [of _ 0]) simp
  next
    case False
    with Cons.prems have "find P zs = Some x" by simp
    from Cons.IH [OF this] obtain i where i: "i < length zs" "zs ! i = x"
      "\<forall>j < i. \<not> P (zs ! j)" "write_back P y zs = zs[i := y]" by blast
    have "\<forall>j < Suc i. \<not> P ((z # zs) ! j)"
      using False i(3) by (auto simp: nth_Cons split: nat.splits)
    with i False show ?thesis by (intro exI [of _ "Suc i"]) simp
  qed
qed

lemma find_write_back:
  "find P xs = Some x \<Longrightarrow> P y \<Longrightarrow> find P (write_back P y xs) = Some y"
  by (induction xs) (auto split: if_splits)

section \<open>Available slots\<close>

text \<open>
  C2: for every date and practitioner, the available-slots query returns exactly the
  elements of the fixed list 09:00, 10:00, 11:00, 14:00, 15:00, 16:00, 17:00 whose label
  is not the time of a stored AGENDADO appointment of that date and practitioner, in the
  order of the fixed list; with no such appointment it returns the whole list.
\<close>

theorem get_available_slots_spec:
  "get_available_slots d pid db =
     filter (\<lambda>slot. \<not> (\<exists>a \<in> set (appointments db).
                date a = d \<and> psychologist_id a = pid \<and> status a = AGENDADO \<and> time a = slot))
       [''09:00'', ''10:00'', ''11:00'', ''14:00'', ''15:00'', ''16:00'', ''17:00'']
   \<and> ((\<forall>a \<in> set (appointments db).
          \<not> (date a = d \<and> psychologist_id a = pid \<and> status a = AGENDADO)) \<longrightarrow>
        get_available_slots d pid db =
          [''09:00'', ''10:00'', ''11:00'', ''14:00'', ''15:00'', ''16:00'', ''17:00''])"
proof -
  let ?occ = "\<lambda>slot. \<exists>a \<in> set (appointments db).
                date a = d \<and> psychologist_id a = pid \<and> status a = AGENDADO \<and> time a = slot"
  have mem: "slot \<in> set (map time (filter (\<lambda>a. date a = d \<and> psychologist_id a = pid \<and>
                status a = AGENDADO) (appointments db))) \<longleftrightarrow> ?occ slot" for slot
    by auto
  have eq: "get_available_slots d pid db = filter (\<lambda>slot. \<not> ?occ slot) all_slots"
    unfolding get_available_slots_def Let_def mem ..
  have full: "filter (\<lambda>slot. \<not> ?occ slot) all_slots = all_slots"
    if "\<forall>a \<in> set (appointments db).
          \<not> (date a = d \<and> psychologist_id a = pid \<and> status a = AGENDADO)"
    using that by (intro filter_True) blast
  show ?thesis using eq full by (simp add: all_slots_def)
qed

theorem get_available_slots_spec_witness:
  "filter (\<lambda>a. date a = ''2025-01-11'' \<and> psychologist_id a = 2 \<and> status a = AGENDADO)
     (appointments db_example) = []
   \<and> get_available_slots ''2025-01-11'' 2 db_example =
       [''09:00'', ''10:00'', ''11:00'', ''14:00'', ''15:00'', ''16:00'', ''17:00'']
   \<and> get_available_slots ''2025-01-10'' 2 db_example =
       [''09:00'', ''11:00'', ''14:00'', ''16:00'', ''17:00'']"
proof -
  have free: "\<forall>a \<in> set (appointments db_example).
      \<not> (date a = ''2025-01-11'' \<and> psychologist_id a = 2 \<and> status a = AGENDADO)"
    by (simp add: example_defs)
  have full: "get_available_slots ''2025-01-11'' 2 db_example =
       [''09:00'', ''10:00'', ''11:00'', ''14:00'', ''15:00'', ''16:00'', ''17:00'']"
    using get_available_slots_spec [of "''2025-01-11''" 2 db_example] free by blast
  have part: "get_available_slots ''2025-01-10'' 2 db_example =
       [''09:00'', ''11:00'', ''14:00'', ''16:00'', ''17:00'']"
    using get_available_slots_spec [of "''2025-01-10''" 2 db_example]
    by (simp add: example_defs)
  have none: "filter (\<lambda>a. date a = ''2025-01-11'' \<and> psychologist_id a = 2 \<and> status a = AGENDADO)
     (appointments db_example) = []"
    by (simp add: example_defs)
  from none full part show ?thesis by blast
qed

section \<open>Creation\<close>

text \<open>
  C10: the outcome of create appointment does not depend on the authenticated caller: for
  any two users and the same payload and storage state the handler gives the same result
  (the same error, or the same stored appointment, storage state and notification), so
  any caller can create an appointment that names any patient and any practitioner.
\<close>

theorem create_appointment_caller_independent:
  "create_appointment appointment_data user1 db = create_appointment appointment_data user2 db"
  by (simp add: create_appointment_def)

theorem create_appointment_caller_independent_witness:
  "create_appointment \<lparr>patient_id = 1, psychologist_id = 5, date = ''2025-01-10'',
       time = ''10:00''\<rparr> user_seven db_example =
   create_appointment \<lparr>patient_id = 1, psychologist_id = 5, date = ''2025-01-10'',
       time = ''10:00''\<rparr> dr_two db_example"
  using create_appointment_caller_independent [of "\<lparr>patient_id = 1, psychologist_id = 5,
       date = ''2025-01-10'', time = ''10:00''\<rparr>" user_seven db_example dr_two]
  by simp

lemma find_slot_taken_None:
  "find (slot_taken data) rows = None \<longleftrightarrow>
     \<not> (\<exists>a \<in> set rows. psychologist_id a = psychologist_id data \<and> date a = date data \<and>
            time a = time data \<and> status a = AGENDADO)"
  by (auto simp: find_None_iff slot_taken_def)

text \<open>
  C1: create appointment raises the 400 "slot not available" error if and only if storage
  holds an AGENDADO appointment with the payload's psychologist_id, date and time; with no
  such appointment a new row with status AGENDADO and the payload's fields is appended to
  the appointments and returned, and the other tables stay as they were.
\<close>

theorem create_appointment_conflict_iff:
  "(create_appointment appointment_data current_user db =
      Inl (HTTPException 400 detail_unavailable)
    \<longleftrightarrow> (\<exists>a \<in> set (appointments db).
           psychologist_id a = psychologist_id appointment_data \<and>
           date a = date appointment_data \<and> time a = time appointment_data \<and>
           status a = AGENDADO))
   \<and> (\<not> (\<exists>a \<in> set (appointments db).
           psychologist_id a = psychologist_id appointment_data \<and>
           date a = date appointment_data \<and> time a = time appointment_data \<and>
           status a = AGENDADO) \<longrightarrow>
       (\<exists>a db' mails.
          create_appointment appointment_data current_user db = Inr (a, db', mails) \<and>
          status a = AGENDADO \<and>
          patient_id a = patient_id appointment_data \<and>
          psychologist_id a = psychologist_id appointment_data \<and>
          date a = date appointment_data \<and> time a = time appointment_data \<and>
          appointments db' = appointments db @ [a] \<and>
          patients db' = patients db \<and> users db' = users db))"
proof (cases "find (slot_taken appointment_data) (appointments db)")
  case None
  then have free: "\<not> (\<exists>a \<in> set (appointments db).
           psychologist_id a = psychologist_id appointment_data \<and>
           date a = date appointment_data \<and> time a = time appointment_data \<and>
           status a = AGENDADO)"
    using find_slot_taken_None [of appointment_data "appointments db"] by blast
  have "create_appointment appointment_data current_user db \<noteq>
          Inl (HTTPException 400 detail_unavailable)"
    using None by (simp add: create_appointment_def Let_def)
  moreover have "\<exists>a db' mails.
          create_appointment appointment_data current_user db = Inr (a, db', mails) \<and>
          status a = AGENDADO \<and>
          patient_id a = patient_id appointment_data \<and>
          psychologist_id a = psychologist_id appointment_data \<and>
          date a = date appointment_data \<and> time a = time appointment_data \<and>
          appointments db' = appointments db @ [a] \<and>
          patients db' = patients db \<and> users db' = users db"
    using None by (simp add: create_appointment_def Let_def new_appointment_def)
  ultimately show ?thesis using free by blast
next
  case (Some existing)
  then have taken: "\<exists>a \<in> set (appointments db).
           psychologist_id a = psychologist_id appointment_data \<and>
           date a = date appointment_data \<and> time a = time appointment_data \<and>
           status a = AGENDADO"
    using find_slot_taken_None [of appointment_data "appointments db"] by auto
  have "create_appointment appointment_data current_user db =
          Inl (HTTPException 400 detail_unavailable)"
    using Some by (simp add: create_appointment_def HTTP_400_BAD_REQUEST_def)
  with taken show ?thesis by blast
qed

theorem create_appointment_conflict_iff_witness:
  "create_appointment \<lparr>patient_id = 1, psychologist_id = 2, date = ''2025-01-10'',
       time = ''10:00''\<rparr> user_seven db_example = Inl (HTTPException 400 detail_unavailable)
   \<and> (\<exists>a db' mails.
        create_appointment \<lparr>patient_id = 1, psychologist_id = 2, date = ''2025-01-11'',
          time = ''09:00''\<rparr> user_seven db_example = Inr (a, db', mails) \<and>
        status a = AGENDADO \<and> appointments db' = appointments db_example @ [a])"
proof -
  have taken: "\<exists>a \<in> set (appointments db_example).
      psychologist_id a = 2 \<and> date a = ''2025-01-10'' \<and> time a = ''10:00'' \<and> status a = AGENDADO"
    by (simp add: example_defs)
  have free: "\<not> (\<exists>a \<in> set (appointments db_example).
      psychologist_id a = 2 \<and> date a = ''2025-01-11'' \<and> time a = ''09:00'' \<and> status a = AGENDADO)"
    by (simp add: example_defs)
  show ?thesis
    using taken free
      create_appointment_conflict_iff [of "\<lparr>patient_id = 1, psychologist_id = 2,
        date = ''2025-01-10'', time = ''10:00''\<rparr>" user_seven db_example]
      create_appointment_conflict_iff [of "\<lparr>patient_id = 1, psychologist_id = 2,
        date = ''2025-01-11'', time = ''09:00''\<rparr>" user_seven db_example]
    by simp blast
qed

section \<open>Cancellation\<close>

text \<open>
  C5: cancel appointment raises the 404 error if and only if no stored appointment has the
  given id. Its result is the same for every caller. When the id resolves to an
  appointment, the call succeeds with the static confirmation message, that appointment's
  row (and no other) is rewritten with status CANCELADO, and the id resolves to the
  canceled appointment afterwards.
\<close>

theorem cancel_appointment_spec:
  "(cancel_appointment aid current_user db = Inl (HTTPException 404 detail_not_found)
      \<longleftrightarrow> (\<forall>a \<in> set (appointments db). appointment_id a \<noteq> aid))
   \<and> cancel_appointment aid current_user db = cancel_appointment aid other_user db
   \<and> (\<forall>a. find (\<lambda>x. appointment_id x = aid) (appointments db) = Some a \<longrightarrow>
        (\<exists>db' mails i.
           cancel_appointment aid current_user db = Inr (cancel_message, db', mails) \<and>
           i < length (appointments db) \<and> appointments db ! i = a \<and>
           appointments db' = (appointments db)[i := a\<lparr>status := CANCELADO\<rparr>] \<and>
           find (\<lambda>x. appointment_id x = aid) (appointments db') = Some (a\<lparr>status := CANCELADO\<rparr>) \<and>
           patients db' = patients db \<and> users db' = users db))"
proof (cases "find (\<lambda>x. appointment_id x = aid) (appointments db)")
  case None
  then have "\<forall>a \<in> set (appointments db). appointment_id a \<noteq> aid"
    by (auto simp: find_None_iff)
  with None show ?thesis
    by (simp add: cancel_appointment_def HTTP_404_NOT_FOUND_def)
next
  case (Some a)
  then have ex: "\<not> (\<forall>x \<in> set (appointments db). appointment_id x \<noteq> aid)"
    by (auto simp: find_Some_iff)
  from write_back_list_update [OF Some, of "a\<lparr>status := CANCELADO\<rparr>"]
  obtain i where i: "i < length (appointments db)" "appointments db ! i = a"
    "write_back (\<lambda>x. appointment_id x = aid) (a\<lparr>status := CANCELADO\<rparr>) (appointments db) =
       (appointments db)[i := a\<lparr>status := CANCELADO\<rparr>]"
    by blast
  from Some have "appointment_id a = aid" by (auto simp: find_Some_iff)
  then have f: "find (\<lambda>x. appointment_id x = aid)
       (write_back (\<lambda>x. appointment_id x = aid) (a\<lparr>status := CANCELADO\<rparr>) (appointments db)) =
     Some (a\<lparr>status := CANCELADO\<rparr>)"
    using find_write_back [OF Some, of "a\<lparr>status := CANCELADO\<rparr>"] by simp
  have indep: "cancel_appointment aid current_user db = cancel_appointment aid other_user db"
    by (simp add: cancel_appointment_def)
  have notfound: "cancel_appointment aid current_user db \<noteq> Inl (HTTPException 404 detail_not_found)"
    using Some by (simp add: cancel_appointment_def Let_def)
  have succ: "\<exists>db' mails i.
           cancel_appointment aid current_user db = Inr (cancel_message, db', mails) \<and>
           i < length (appointments db) \<and> appointments db ! i = a \<and>
           appointments db' = (appointments db)[i := a\<lparr>status := CANCELADO\<rparr>] \<and>
           find (\<lambda>x. appointment_id x = aid) (appointments db') = Some (a\<lparr>status := CANCELADO\<rparr>) \<and>
           patients db' = patients db \<and> users db' = users db"
    using Some i f by (simp add: cancel_appointment_def Let_def) blast
  from ex indep notfound succ Some show ?thesis by simp
qed

theorem cancel_appointment_spec_witness:
  "find (\<lambda>x. appointment_id x = 4) (appointments db_example) = Some appt4
   \<and> (\<exists>db' mails.
        cancel_appointment 4 dr_five db_example = Inr (cancel_message, db', mails) \<and>
        find (\<lambda>x. appointment_id x = 4) (appointments db') = Some (appt4\<lparr>status := CANCELADO\<rparr>))
   \<and> cancel_appointment 4 dr_five db_example = cancel_appointment 4 user_seven db_example
   \<and> find (\<lambda>x. appointment_id x = 9) (appointments db_example) = None
   \<and> cancel_appointment 9 dr_five db_example = Inl (HTTPException 404 detail_not_found)"
proof -
  have found: "find (\<lambda>x. appointment_id x = 4) (appointments db_example) = Some appt4"
    by (simp add: example_defs)
  have missing: "\<forall>a \<in> set (appointments db_example). appointment_id a \<noteq> 9"
    by (simp add: example_defs)
  have none: "find (\<lambda>x. appointment_id x = 9) (appointments db_example) = None"
    by (simp add: example_defs)
  show ?thesis
    using found missing none cancel_appointment_spec [of 4 dr_five db_example user_seven]
      cancel_appointment_spec [of 9 dr_five db_example user_seven]
    by blast
qed

lemma fold_setattr:
  "fold (\<lambda>fv a. setattr a fv) (dict_exclude_unset update_data) appointment =
     appointment\<lparr>date := (case upd_date update_data of None \<Rightarrow> date appointment | Some v \<Rightarrow> v),
                 time := (case upd_time update_data of None \<Rightarrow> time appointment | Some v \<Rightarrow> v),
                 status := (case upd_status update_data of None \<Rightarrow> status appointment | Some v \<Rightarrow> v)\<rparr>"
  by (simp add: dict_exclude_unset_def split: option.splits)

section \<open>Update\<close>

text \<open>
  C6: update appointment raises the 404 error if and only if no stored appointment has the
  given id. For a resolved appointment it raises the 403 error if and only if the caller
  is a practitioner whose id differs from the appointment's psychologist_id, and it
  succeeds for every other caller.
\<close>

theorem update_appointment_errors:
  "(update_appointment aid update_data current_user db =
      Inl (HTTPException 404 detail_not_found)
    \<longleftrightarrow> (\<forall>a \<in> set (appointments db). appointment_id a \<noteq> aid))
   \<and> (\<forall>a. find (\<lambda>x. appointment_id x = aid) (appointments db) = Some a \<longrightarrow>
        (update_appointment aid update_data current_user db =
           Inl (HTTPException 403 detail_forbidden)
         \<longleftrightarrow> user_type current_user = PSICOLOGO \<and> user_id current_user \<noteq> psychologist_id a)
        \<and> ((\<exists>r. update_appointment aid update_data current_user db = Inr r)
         \<longleftrightarrow> \<not> (user_type current_user = PSICOLOGO \<and> user_id current_user \<noteq> psychologist_id a)))"
proof (cases "find (\<lambda>x. appointment_id x = aid) (appointments db)")
  case None
  then have "\<forall>a \<in> set (appointments db). appointment_id a \<noteq> aid"
    by (auto simp: find_None_iff)
  with None show ?thesis
    by (simp add: update_appointment_def HTTP_404_NOT_FOUND_def)
next
  case (Some a)
  then have ex: "\<not> (\<forall>x \<in> set (appointments db). appointment_id x \<noteq> aid)"
    by (auto simp: find_Some_iff)
  have nf: "update_appointment aid update_data current_user db \<noteq>
              Inl (HTTPException 404 detail_not_found)"
    using Some
    by (simp add: update_appointment_def Let_def HTTP_404_NOT_FOUND_def HTTP_403_FORBIDDEN_def)
  have fb: "update_appointment aid update_data current_user db =
              Inl (HTTPException 403 detail_forbidden)
            \<longleftrightarrow> user_type current_user = PSICOLOGO \<and> user_id current_user \<noteq> psychologist_id a"
    using Some by (auto simp: update_appointment_def Let_def HTTP_403_FORBIDDEN_def)
  have ok: "(\<exists>r. update_appointment aid update_data current_user db = Inr r)
            \<longleftrightarrow> \<not> (user_type current_user = PSICOLOGO \<and> user_id current_user \<noteq> psychologist_id a)"
    using Some by (auto simp: update_appointment_def Let_def)
  from ex nf fb ok Some show ?thesis by simp
qed

theorem update_appointment_errors_witness:
  "find (\<lambda>x. appointment_id x = 9) (appointments db_example) = None
   \<and> update_appointment 9 \<lparr>upd_date = Some ''2025-02-01'', upd_time = None, upd_status = None\<rparr>
       dr_two db_example = Inl (HTTPException 404 detail_not_found)
   \<and> find (\<lambda>x. appointment_id x = 4) (appointments db_example) = Some appt4
   \<and> update_appointment 4 \<lparr>upd_date = Some ''2025-02-01'', upd_time = None, upd_status = None\<rparr>
       dr_five db_example = Inl (HTTPException 403 detail_forbidden)
   \<and> (\<exists>r. update_appointment 4 \<lparr>upd_date = Some ''2025-02-01'', upd_time = None,
             upd_status = None\<rparr> dr_two db_example = Inr r)
   \<and> (\<exists>r. update_appointment 4 \<lparr>upd_date = Some ''2025-02-01'', upd_time = None,
             upd_status = None\<rparr> user_seven db_example = Inr r)"
proof -
  let ?u = "\<lparr>upd_date = Some ''2025-02-01'', upd_time = None, upd_status = None\<rparr>"
  have missing: "\<forall>a \<in> set (appointments db_example). appointment_id a \<noteq> 9"
    by (simp add: example_defs)
  have found: "find (\<lambda>x. appointment_id x = 4) (appointments db_example) = Some appt4"
    by (simp add: example_defs)
  have five: "user_type dr_five = PSICOLOGO \<and> user_id dr_five \<noteq> psychologist_id appt4"
    by (simp add: example_defs)
  have two: "\<not> (user_type dr_two = PSICOLOGO \<and> user_id dr_two \<noteq> psychologist_id appt4)"
    by (simp add: example_defs)
  have seven: "\<not> (user_type user_seven = PSICOLOGO \<and> user_id user_seven \<noteq> psychologist_id appt4)"
    by (simp add: example_defs)
  have none: "find (\<lambda>x. appointment_id x = 9) (appointments db_example) = None"
    by (simp add: example_defs)
  show ?thesis
    using missing none found five two seven
      update_appointment_errors [of 9 ?u dr_two db_example]
      update_appointment_errors [of 4 ?u dr_five db_example]
      update_appointment_errors [of 4 ?u dr_two db_example]
      update_appointment_errors [of 4 ?u user_seven db_example]
    by blast
qed

lemma update_appointment_Inr:
  assumes "update_appointment aid update_data current_user db = Inr (a', db', mails)"
  obtains a where
    "find (\<lambda>x. appointment_id x = aid) (appointments db) = Some a"
    "\<not> (user_type current_user = PSICOLOGO \<and> psychologist_id a \<noteq> user_id current_user)"
    "a' = fold (\<lambda>fv a. setattr a fv) (dict_exclude_unset update_data) a"
    "db' = db\<lparr>appointments := write_back (\<lambda>x. appointment_id x = aid) a' (appointments db)\<rparr>"
    "mails = (if date a' \<noteq> date a \<or> time a' \<noteq> time a then rescheduled_mail a' db' else [])"
  using assms
  by (auto simp: update_appointment_def Let_def split: option.splits if_splits)

text \<open>
  C7: a successful update writes only the fields the payload provides. The returned
  appointment has the payload's value in each provided field and the old value in each
  field the payload leaves unset; patient_id, psychologist_id and the id are never
  written. In storage only the resolved appointment's row changes, and the patients and
  users stay as they were.
\<close>

theorem update_appointment_frame:
  assumes "update_appointment aid update_data current_user db = Inr (a', db', mails)"
  shows "\<exists>a i. find (\<lambda>x. appointment_id x = aid) (appointments db) = Some a \<and>
           i < length (appointments db) \<and> appointments db ! i = a \<and>
           appointments db' = (appointments db)[i := a'] \<and>
           patients db' = patients db \<and> users db' = users db \<and>
           patient_id a' = patient_id a \<and> psychologist_id a' = psychologist_id a \<and>
           appointment_id a' = appointment_id a \<and>
           date a' = (case upd_date update_data of None \<Rightarrow> date a | Some v \<Rightarrow> v) \<and>
           time a' = (case upd_time update_data of None \<Rightarrow> time a | Some v \<Rightarrow> v) \<and>
           status a' = (case upd_status update_data of None \<Rightarrow> status a | Some v \<Rightarrow> v)"
proof -
  from assms obtain a where a:
    "find (\<lambda>x. appointment_id x = aid) (appointments db) = Some a"
    "a' = fold (\<lambda>fv a. setattr a fv) (dict_exclude_unset update_data) a"
    "db' = db\<lparr>appointments := write_back (\<lambda>x. appointment_id x = aid) a' (appointments db)\<rparr>"
    by (rule update_appointment_Inr)
  from write_back_list_update [OF a(1), of a']
  obtain i where i: "i < length (appointments db)" "appointments db ! i = a"
    "write_back (\<lambda>x. appointment_id x = aid) a' (appointments db) = (appointments db)[i := a']"
    by blast
  have fields: "patient_id a' = patient_id a \<and> psychologist_id a' = psychologist_id a \<and>
           appointment_id a' = appointment_id a \<and>
           date a' = (case upd_date update_data of None \<Rightarrow> date a | Some v \<Rightarrow> v) \<and>
           time a' = (case upd_time update_data of None \<Rightarrow> time a | Some v \<Rightarrow> v) \<and>
           status a' = (case upd_status update_data of None \<Rightarrow> status a | Some v \<Rightarrow> v)"
    unfolding a(2) fold_setattr by simp
  have tables: "appointments db' = (appointments db)[i := a'] \<and>
           patients db' = patients db \<and> users db' = users db"
    using a(3) i(3) by simp
  from a(1) i(1,2) fields tables show ?thesis by blast
qed

lemma update_example:
  "update_appointment 4 \<lparr>upd_date = Some ''2025-02-01'', upd_time = None, upd_status = None\<rparr>
     dr_two db_example =
   Inr (appt4\<lparr>date := ''2025-02-01''\<rparr>,
        db_example\<lparr>appointments := [appt1, appt2, appt3, appt4\<lparr>date := ''2025-02-01''\<rparr>, appt5]\<rparr>,
        [send_email_appointment_rescheduled ''ana@example.org'' ''Ana'' ''2025-02-01'' ''14:00''])"
  by (simp add: update_appointment_def example_defs dict_exclude_unset_def Let_def
      rescheduled_mail_def)

theorem update_appointment_frame_witness:
  "update_appointment 4 \<lparr>upd_date = Some ''2025-02-01'', upd_time = None, upd_status = None\<rparr>
     dr_two db_example =
   Inr (appt4\<lparr>date := ''2025-02-01''\<rparr>,
        db_example\<lparr>appointments := [appt1, appt2, appt3, appt4\<lparr>date := ''2025-02-01''\<rparr>, appt5]\<rparr>,
        [send_email_appointment_rescheduled ''ana@example.org'' ''Ana'' ''2025-02-01'' ''14:00''])
   \<and> time (appt4\<lparr>date := ''2025-02-01''\<rparr>) = ''14:00''
   \<and> status (appt4\<lparr>date := ''2025-02-01''\<rparr>) = AGENDADO
   \<and> patient_id (appt4\<lparr>date := ''2025-02-01''\<rparr>) = 1
   \<and> psychologist_id (appt4\<lparr>date := ''2025-02-01''\<rparr>) = 2"
proof -
  have found: "find (\<lambda>x. appointment_id x = 4) (appointments db_example) = Some appt4"
    by (simp add: example_defs)
  have old: "time appt4 = ''14:00'' \<and> status appt4 = AGENDADO \<and> patient_id appt4 = 1 \<and>
             psychologist_id appt4 = 2"
    by (simp add: example_defs)
  from update_appointment_frame [OF update_example] found old update_example
  show ?thesis by auto
qed

text \<open>
  C8: after a successful update, a "rescheduled" notification is dispatched if and only
  if the date or the time after the update differs from the one before and a patient with
  the appointment's patient_id exists; it then goes to the first such patient with the new
  date and time. Otherwise nothing is dispatched. The update succeeds whatever the
  patients table holds and whatever the payload sets.
\<close>

theorem update_appointment_notification:
  assumes "update_appointment aid update_data current_user db = Inr (a', db', mails)"
      and "find (\<lambda>x. appointment_id x = aid) (appointments db) = Some a"
  shows "(mails \<noteq> [] \<longleftrightarrow>
            (date a' \<noteq> date a \<or> time a' \<noteq> time a) \<and>
            (\<exists>p \<in> set (patients db). pat_id p = patient_id a))
         \<and> mails =
            (if date a' \<noteq> date a \<or> time a' \<noteq> time a
             then case find (\<lambda>p. pat_id p = patient_id a) (patients db) of
                    Some patient \<Rightarrow>
                      [send_email_appointment_rescheduled (pat_email patient) (pat_name patient)
                         (date a') (time a')]
                  | None \<Rightarrow> []
             else [])
         \<and> (\<exists>r. update_appointment aid other_data current_user (db\<lparr>patients := ps\<rparr>) = Inr r)"
proof -
  from assms(1) obtain b where b:
    "find (\<lambda>x. appointment_id x = aid) (appointments db) = Some b"
    "\<not> (user_type current_user = PSICOLOGO \<and> psychologist_id b \<noteq> user_id current_user)"
    "a' = fold (\<lambda>fv a. setattr a fv) (dict_exclude_unset update_data) b"
    "db' = db\<lparr>appointments := write_back (\<lambda>x. appointment_id x = aid) a' (appointments db)\<rparr>"
    "mails = (if date a' \<noteq> date b \<or> time a' \<noteq> time b then rescheduled_mail a' db' else [])"
    by (rule update_appointment_Inr)
  from b(1) assms(2) have ba: "b = a" by simp
  have pid: "patient_id a' = patient_id a"
    unfolding b(3) ba fold_setattr by simp
  have mail: "rescheduled_mail a' db' =
      (case find (\<lambda>p. pat_id p = patient_id a) (patients db) of
         Some patient \<Rightarrow>
           [send_email_appointment_rescheduled (pat_email patient) (pat_name patient)
              (date a') (time a')]
       | None \<Rightarrow> [])"
    using pid b(4) by (simp add: rescheduled_mail_def)
  have eq: "mails =
            (if date a' \<noteq> date a \<or> time a' \<noteq> time a
             then case find (\<lambda>p. pat_id p = patient_id a) (patients db) of
                    Some patient \<Rightarrow>
                      [send_email_appointment_rescheduled (pat_email patient) (pat_name patient)
                         (date a') (time a')]
                  | None \<Rightarrow> []
             else [])"
    using b(5) mail ba by simp
  have ex: "(\<exists>p \<in> set (patients db). pat_id p = patient_id a) \<longleftrightarrow>
            find (\<lambda>p. pat_id p = patient_id a) (patients db) \<noteq> None"
    by (auto simp: find_None_iff)
  have iff: "mails \<noteq> [] \<longleftrightarrow>
            (date a' \<noteq> date a \<or> time a' \<noteq> time a) \<and>
            (\<exists>p \<in> set (patients db). pat_id p = patient_id a)"
    unfolding ex eq by (auto split: option.splits)
  have succ: "\<exists>r. update_appointment aid other_data current_user (db\<lparr>patients := ps\<rparr>) = Inr r"
    using b(1,2) by (simp add: update_appointment_def Let_def)
  from iff eq succ show ?thesis by blast
qed

lemma update_example_unchanged:
  "update_appointment 4 \<lparr>upd_date = Some ''2025-01-12'', upd_time = None, upd_status = None\<rparr>
     dr_two db_example = Inr (appt4, db_example, [])"
  by (simp add: update_appointment_def example_defs dict_exclude_unset_def Let_def)

lemma update_example_no_patient:
  "update_appointment 2 \<lparr>upd_date = None, upd_time = Some ''16:00'', upd_status = None\<rparr>
     dr_two db_example =
   Inr (appt2\<lparr>time := ''16:00''\<rparr>,
        db_example\<lparr>appointments := [appt1, appt2\<lparr>time := ''16:00''\<rparr>, appt3, appt4, appt5]\<rparr>, [])"
  by (simp add: update_appointment_def example_defs dict_exclude_unset_def Let_def
      rescheduled_mail_def)

theorem update_appointment_notification_witness:
  "update_appointment 4 \<lparr>upd_date = Some ''2025-02-01'', upd_time = None, upd_status = None\<rparr>
     dr_two db_example =
   Inr (appt4\<lparr>date := ''2025-02-01''\<rparr>,
        db_example\<lparr>appointments := [appt1, appt2, appt3, appt4\<lparr>date := ''2025-02-01''\<rparr>, appt5]\<rparr>,
        [send_email_appointment_rescheduled ''ana@example.org'' ''Ana'' ''2025-02-01'' ''14:00''])
   \<and> find (\<lambda>x. appointment_id x = 4) (appointments db_example) = Some appt4
   \<and> date (appt4\<lparr>date := ''2025-02-01''\<rparr>) \<noteq> date appt4
   \<and> (\<exists>p \<in> set (patients db_example). pat_id p = patient_id appt4)
   \<and> update_appointment 4 \<lparr>upd_date = Some ''2025-01-12'', upd_time = None, upd_status = None\<rparr>
       dr_two db_example = Inr (appt4, db_example, [])
   \<and> find (\<lambda>x. appointment_id x = 2) (appointments db_example) = Some appt2
   \<and> update_appointment 2 \<lparr>upd_date = None, upd_time = Some ''16:00'', upd_status = None\<rparr>
       dr_two db_example =
     Inr (appt2\<lparr>time := ''16:00''\<rparr>,
        db_example\<lparr>appointments := [appt1, appt2\<lparr>time := ''16:00''\<rparr>, appt3, appt4, appt5]\<rparr>, [])
   \<and> \<not> (\<exists>p \<in> set (patients db_example). pat_id p = patient_id appt2)"
proof -
  have found4: "find (\<lambda>x. appointment_id x = 4) (appointments db_example) = Some appt4"
    by (simp add: example_defs)
  have found2: "find (\<lambda>x. appointment_id x = 2) (appointments db_example) = Some appt2"
    by (simp add: example_defs)
  have changed: "date (appt4\<lparr>date := ''2025-02-01''\<rparr>) \<noteq> date appt4"
    by (simp add: example_defs)
  from update_appointment_notification [OF update_example found4]
  have p4: "\<exists>p \<in> set (patients db_example). pat_id p = patient_id appt4"
    by blast
  from update_appointment_notification [OF update_example_no_patient found2]
  have p2: "\<not> (\<exists>p \<in> set (patients db_example). pat_id p = patient_id appt2)"
    by (simp add: example_defs)
  from update_example update_example_unchanged update_example_no_patient found4 found2
    changed p4 p2
  show ?thesis by blast
qed

text \<open>
  C4: update performs no slot-conflict check. It never raises an error with status 400;
  and in the example storage, where practitioner 2 has an AGENDADO appointment on
  2025-01-10 at 10:00, moving appointment 4 of the same practitioner to that date and time
  succeeds and leaves two AGENDADO appointments in one slot.
\<close>

theorem update_appointment_no_conflict_check:
  "update_appointment aid update_data current_user db \<noteq> Inl (HTTPException 400 d)
   \<and> update_appointment 4 \<lparr>upd_date = Some ''2025-01-10'', upd_time = Some ''10:00'',
         upd_status = None\<rparr> dr_two db_example =
       Inr (appt4\<lparr>date := ''2025-01-10'', time := ''10:00''\<rparr>,
            db_example\<lparr>appointments :=
              [appt1, appt2, appt3, appt4\<lparr>date := ''2025-01-10'', time := ''10:00''\<rparr>, appt5]\<rparr>,
            [send_email_appointment_rescheduled ''ana@example.org'' ''Ana'' ''2025-01-10'' ''10:00''])
   \<and> status appt1 = AGENDADO
   \<and> status (appt4\<lparr>date := ''2025-01-10'', time := ''10:00''\<rparr>) = AGENDADO
   \<and> psychologist_id (appt4\<lparr>date := ''2025-01-10'', time := ''10:00''\<rparr>) = psychologist_id appt1
   \<and> date (appt4\<lparr>date := ''2025-01-10'', time := ''10:00''\<rparr>) = date appt1
   \<and> time (appt4\<lparr>date := ''2025-01-10'', time := ''10:00''\<rparr>) = time appt1
   \<and> appointment_id (appt4\<lparr>date := ''2025-01-10'', time := ''10:00''\<rparr>) \<noteq> appointment_id appt1"
proof -
  have "update_appointment aid update_data current_user db \<noteq> Inl (HTTPException 400 d)"
    by (simp add: update_appointment_def Let_def HTTP_404_NOT_FOUND_def HTTP_403_FORBIDDEN_def
        split: option.splits)
  moreover have "update_appointment 4 \<lparr>upd_date = Some ''2025-01-10'', upd_time = Some ''10:00'',
         upd_status = None\<rparr> dr_two db_example =
       Inr (appt4\<lparr>date := ''2025-01-10'', time := ''10:00''\<rparr>,
            db_example\<lparr>appointments :=
              [appt1, appt2, appt3, appt4\<lparr>date := ''2025-01-10'', time := ''10:00''\<rparr>, appt5]\<rparr>,
            [send_email_appointment_rescheduled ''ana@example.org'' ''Ana'' ''2025-01-10'' ''10:00''])"
    by (simp add: update_appointment_def example_defs dict_exclude_unset_def Let_def
      rescheduled_mail_def)
  moreover have "status appt1 = AGENDADO
   \<and> status (appt4\<lparr>date := ''2025-01-10'', time := ''10:00''\<rparr>) = AGENDADO
   \<and> psychologist_id (appt4\<lparr>date := ''2025-01-10'', time := ''10:00''\<rparr>) = psychologist_id appt1
   \<and> date (appt4\<lparr>date := ''2025-01-10'', time := ''10:00''\<rparr>) = date appt1
   \<and> time (appt4\<lparr>date := ''2025-01-10'', time := ''10:00''\<rparr>) = time appt1
   \<and> appointment_id (appt4\<lparr>date := ''2025-01-10'', time := ''10:00''\<rparr>) \<noteq> appointment_id appt1"
    by (simp add: example_defs)
  ultimately show ?thesis by blast
qed

theorem update_appointment_no_conflict_check_witness:
  "update_appointment 9 \<lparr>upd_date = Some ''2025-01-10'', upd_time = Some ''10:00'',
      upd_status = None\<rparr> dr_two db_example \<noteq> Inl (HTTPException 400 detail_unavailable)
   \<and> update_appointment 4 \<lparr>upd_date = Some ''2025-01-10'', upd_time = Some ''10:00'',
         upd_status = None\<rparr> dr_two db_example =
       Inr (appt4\<lparr>date := ''2025-01-10'', time := ''10:00''\<rparr>,
            db_example\<lparr>appointments :=
              [appt1, appt2, appt3, appt4\<lparr>date := ''2025-01-10'', time := ''10:00''\<rparr>, appt5]\<rparr>,
            [send_email_appointment_rescheduled ''ana@example.org'' ''Ana'' ''2025-01-10'' ''10:00''])"
  using update_appointment_no_conflict_check [of 9 "\<lparr>upd_date = Some ''2025-01-10'',
      upd_time = Some ''10:00'', upd_status = None\<rparr>" dr_two db_example detail_unavailable]
  by blast

section \<open>The status across requests\<close>

lemma cancel_appointment_Inr:
  assumes "cancel_appointment aid current_user db = Inr (msg, db', mails)"
  obtains a where
    "find (\<lambda>x. appointment_id x = aid) (appointments db) = Some a"
    "db' = db\<lparr>appointments :=
             write_back (\<lambda>x. appointment_id x = aid) (a\<lparr>status := CANCELADO\<rparr>) (appointments db)\<rparr>"
  using assms
  by (auto simp: cancel_appointment_def Let_def split: option.splits)

lemma fold_max_ge: "m \<le> fold max ys (m::int)"
proof (induction ys arbitrary: m)
  case Nil
  then show ?case by simp
next
  case (Cons y ys)
  have "m \<le> max y m" by simp
  also have "\<dots> \<le> fold max ys (max y m)" by (rule Cons.IH)
  finally show ?case by simp
qed

lemma fold_max_mem: "x \<in> set ys \<Longrightarrow> x \<le> fold max ys (m::int)"
proof (induction ys arbitrary: m)
  case Nil
  then show ?case by simp
next
  case (Cons y ys)
  show ?case
  proof (cases "x = y")
    case True
    have "y \<le> max y m" by simp
    also have "\<dots> \<le> fold max ys (max y m)" by (rule fold_max_ge)
    finally show ?thesis using True by simp
  next
    case False
    with Cons.prems have "x \<in> set ys" by simp
    from Cons.IH [OF this] show ?thesis by simp
  qed
qed

lemma next_id_fresh: "next_id rows \<notin> appointment_id ` set rows"
proof
  assume "next_id rows \<in> appointment_id ` set rows"
  then have "next_id rows \<in> set (map appointment_id rows)" by simp
  from fold_max_mem [OF this, of 0] show False by (simp add: next_id_def)
qed

text \<open>What one request does to the rows that were stored before it.\<close>

lemma handle_rows:
  "length (appointments db) \<le> length (appointments (handle r db)) \<and>
   (\<forall>i < length (appointments db).
      appointment_id (appointments (handle r db) ! i) = appointment_id (appointments db ! i) \<and>
      (\<not> sets_scheduled (snd r) \<longrightarrow> status (appointments db ! i) = CANCELADO \<longrightarrow>
         status (appointments (handle r db) ! i) = CANCELADO))"
proof -
  obtain u q where r: "r = (u, q)" by (cases r)
  show ?thesis
  proof (cases q)
    case (Create d)
    show ?thesis
      unfolding r Create
      by (auto simp: create_appointment_def Let_def nth_append split: option.splits)
  next
    case (Update aid upd)
    show ?thesis
    proof (cases "update_appointment aid upd u db")
      case (Inl e)
      then show ?thesis unfolding r Update by simp
    next
      case (Inr res)
      obtain a' db' mails where res: "res = (a', db', mails)" by (cases res)
      from Inr [unfolded res] obtain a where a:
        "find (\<lambda>x. appointment_id x = aid) (appointments db) = Some a"
        "a' = fold (\<lambda>fv a. setattr a fv) (dict_exclude_unset upd) a"
        "db' = db\<lparr>appointments := write_back (\<lambda>x. appointment_id x = aid) a' (appointments db)\<rparr>"
        by (rule update_appointment_Inr)
      from write_back_list_update [OF a(1), of a']
      obtain k where k: "k < length (appointments db)" "appointments db ! k = a"
        "write_back (\<lambda>x. appointment_id x = aid) a' (appointments db) = (appointments db)[k := a']"
        by blast
      have h: "handle r db = db'" unfolding r Update using Inr res by simp
      have rows: "appointments db' = (appointments db)[k := a']" using a(3) k(3) by simp
      have ida: "appointment_id a' = appointment_id a" unfolding a(2) fold_setattr by simp
      have sta: "status a' = CANCELADO"
        if "\<not> sets_scheduled (snd r)" "status a = CANCELADO"
      proof (cases "upd_status upd")
        case None
        with that(2) show ?thesis unfolding a(2) fold_setattr by simp
      next
        case (Some v)
        with that(1) have "v \<noteq> AGENDADO" unfolding r Update by simp
        then have "v = CANCELADO" by (cases v) simp_all
        with Some show ?thesis unfolding a(2) fold_setattr by simp
      qed
      show ?thesis
        unfolding h rows using k(1,2) ida sta by (auto simp: nth_list_update)
    qed
  next
    case (Cancel aid)
    show ?thesis
    proof (cases "cancel_appointment aid u db")
      case (Inl e)
      then show ?thesis unfolding r Cancel by simp
    next
      case (Inr res)
      obtain msg db' mails where res: "res = (msg, db', mails)" by (cases res)
      from Inr [unfolded res] obtain a where a:
        "find (\<lambda>x. appointment_id x = aid) (appointments db) = Some a"
        "db' = db\<lparr>appointments :=
             write_back (\<lambda>x. appointment_id x = aid) (a\<lparr>status := CANCELADO\<rparr>) (appointments db)\<rparr>"
        by (rule cancel_appointment_Inr)
      from write_back_list_update [OF a(1), of "a\<lparr>status := CANCELADO\<rparr>"]
      obtain k where k: "k < length (appointments db)" "appointments db ! k = a"
        "write_back (\<lambda>x. appointment_id x = aid) (a\<lparr>status := CANCELADO\<rparr>) (appointments db) =
           (appointments db)[k := a\<lparr>status := CANCELADO\<rparr>]"
        by blast
      have h: "handle r db = db'" unfolding r Cancel using Inr res by simp
      have rows: "appointments db' = (appointments db)[k := a\<lparr>status := CANCELADO\<rparr>]"
        using a(2) k(3) by simp
      show ?thesis
        unfolding h rows using k(1,2) by (auto simp: nth_list_update)
    qed
  qed
qed

lemma run_rows:
  "\<forall>r \<in> set rs. \<not> sets_scheduled (snd r) \<Longrightarrow> i < length (appointments db) \<Longrightarrow>
     i < length (appointments (run rs db)) \<and>
     appointment_id (appointments (run rs db) ! i) = appointment_id (appointments db ! i) \<and>
     (status (appointments db ! i) = CANCELADO \<longrightarrow>
        status (appointments (run rs db) ! i) = CANCELADO)"
proof (induction rs arbitrary: db)
  case Nil
  then show ?case by (simp add: run_def)
next
  case (Cons r rs)
  from Cons.prems(1) have r: "\<not> sets_scheduled (snd r)"
    and rs: "\<forall>r \<in> set rs. \<not> sets_scheduled (snd r)"
    by simp_all
  from handle_rows [of db r] Cons.prems(2) r
  have step: "i < length (appointments (handle r db))"
    "appointment_id (appointments (handle r db) ! i) = appointment_id (appointments db ! i)"
    "status (appointments db ! i) = CANCELADO \<Longrightarrow>
       status (appointments (handle r db) ! i) = CANCELADO"
    by auto
  have unf: "run (r # rs) db = run rs (handle r db)" by (simp add: run_def)
  from Cons.IH [OF rs step(1)] step(2,3) show ?case unfolding unf by simp
qed

text \<open>
  C3, for the sequences in which no update payload provides the status AGENDADO: an
  appointment is created with status AGENDADO; across every such sequence of create,
  update and cancel requests every appointment stored before the sequence is still
  stored after it, at the same place and with the same id, and one that was CANCELADO is
  still CANCELADO, so the status only moves from AGENDADO to CANCELADO; and a successful
  update whose payload provides a status writes that status: the returned appointment
  has it, and the id resolves to the returned appointment afterwards.
\<close>

theorem status_never_reverts:
  "(create_appointment appointment_data current_user db0 = Inr (a, db1, mails) \<longrightarrow>
      status a = AGENDADO)
   \<and> ((\<forall>r \<in> set rs. \<not> sets_scheduled (snd r)) \<longrightarrow>
        (\<forall>i < length (appointments db).
           i < length (appointments (run rs db)) \<and>
           appointment_id (appointments (run rs db) ! i) = appointment_id (appointments db ! i) \<and>
           (status (appointments db ! i) = CANCELADO \<longrightarrow>
              status (appointments (run rs db) ! i) = CANCELADO)))
   \<and> (update_appointment aid update_data other_user db2 = Inr (a2, db3, mails2) \<longrightarrow>
        upd_status update_data = Some s \<longrightarrow>
        status a2 = s \<and>
        find (\<lambda>x. appointment_id x = aid) (appointments db3) = Some a2)"
proof -
  have created: "create_appointment appointment_data current_user db0 = Inr (a, db1, mails) \<longrightarrow>
      status a = AGENDADO"
    by (auto simp: create_appointment_def Let_def new_appointment_def split: option.splits)
  have written: "status a2 = s \<and>
        find (\<lambda>x. appointment_id x = aid) (appointments db3) = Some a2"
    if ok: "update_appointment aid update_data other_user db2 = Inr (a2, db3, mails2)"
      and st: "upd_status update_data = Some s"
  proof -
    from ok obtain b where b:
      "find (\<lambda>x. appointment_id x = aid) (appointments db2) = Some b"
      "a2 = fold (\<lambda>fv a. setattr a fv) (dict_exclude_unset update_data) b"
      "db3 = db2\<lparr>appointments :=
               write_back (\<lambda>x. appointment_id x = aid) a2 (appointments db2)\<rparr>"
      by (rule update_appointment_Inr)
    from b(1) have "appointment_id b = aid" by (auto simp: find_Some_iff)
    then have id2: "appointment_id a2 = aid" unfolding b(2) fold_setattr by simp
    have st2: "status a2 = s" unfolding b(2) fold_setattr using st by simp
    from find_write_back [OF b(1), of a2] id2 b(3)
    have "find (\<lambda>x. appointment_id x = aid) (appointments db3) = Some a2" by simp
    with st2 show ?thesis by simp
  qed
  from created written run_rows [of rs _ db] show ?thesis by blast
qed

lemma update_example_cancelado:
  "update_appointment 2 \<lparr>upd_date = None, upd_time = None, upd_status = Some CANCELADO\<rparr>
     dr_two db_example =
   Inr (appt2\<lparr>status := CANCELADO\<rparr>,
        db_example\<lparr>appointments := [appt1, appt2\<lparr>status := CANCELADO\<rparr>, appt3, appt4, appt5]\<rparr>,
        [])"
  by (simp add: update_appointment_def example_defs dict_exclude_unset_def Let_def)

theorem status_never_reverts_witness:
  "status (appointments db_example ! 2) = CANCELADO
   \<and> status (appointments (run example_requests db_example) ! 2) = CANCELADO
   \<and> map status (appointments (run example_requests db_example)) =
       [CANCELADO, CANCELADO, CANCELADO, CANCELADO, AGENDADO, AGENDADO]
   \<and> update_appointment 2 \<lparr>upd_date = None, upd_time = None, upd_status = Some CANCELADO\<rparr>
       dr_two db_example =
     Inr (appt2\<lparr>status := CANCELADO\<rparr>,
          db_example\<lparr>appointments := [appt1, appt2\<lparr>status := CANCELADO\<rparr>, appt3, appt4, appt5]\<rparr>,
          [])
   \<and> status (appt2\<lparr>status := CANCELADO\<rparr>) = CANCELADO
   \<and> find (\<lambda>x. appointment_id x = 2)
        (appointments
           (db_example\<lparr>appointments := [appt1, appt2\<lparr>status := CANCELADO\<rparr>, appt3, appt4, appt5]\<rparr>))
       = Some (appt2\<lparr>status := CANCELADO\<rparr>)"
proof -
  let ?u = "\<lparr>upd_date = None, upd_time = None, upd_status = Some CANCELADO\<rparr>"
  let ?db = "db_example\<lparr>appointments := [appt1, appt2\<lparr>status := CANCELADO\<rparr>, appt3, appt4, appt5]\<rparr>"
  have pre: "\<forall>r \<in> set example_requests. \<not> sets_scheduled (snd r)"
    by (simp add: example_requests_def)
  have len: "2 < length (appointments db_example)" by (simp add: example_defs)
  have old: "status (appointments db_example ! 2) = CANCELADO" by (simp add: example_defs)
  have all: "map status (appointments (run example_requests db_example)) =
       [CANCELADO, CANCELADO, CANCELADO, CANCELADO, AGENDADO, AGENDADO]"
    by (simp add: example_requests_def run_def example_defs create_appointment_def
        update_appointment_def cancel_appointment_def Let_def new_appointment_def next_id_def
        dict_exclude_unset_def slot_taken_def)
  have st: "upd_status ?u = Some CANCELADO" by simp
  note inst = status_never_reverts [of _ _ _ _ _ _ example_requests db_example 2 ?u dr_two
      db_example "appt2\<lparr>status := CANCELADO\<rparr>" ?db "[]" CANCELADO]
  from inst pre len old
  have kept: "status (appointments (run example_requests db_example) ! 2) = CANCELADO"
    by blast
  from inst update_example_cancelado st
  have wr: "status (appt2\<lparr>status := CANCELADO\<rparr>) = CANCELADO \<and>
        find (\<lambda>x. appointment_id x = 2) (appointments ?db) = Some (appt2\<lparr>status := CANCELADO\<rparr>)"
    by blast
  from old kept all update_example_cancelado wr show ?thesis by blast
qed

text \<open>
  With a payload that provides the status AGENDADO the status does revert: an appointment
  is created, canceled, and then set back to AGENDADO by an update.
\<close>

theorem status_reverts_counterexample:
  "map status (appointments (run (take 1 revert_requests) empty_db)) = [AGENDADO]
   \<and> map status (appointments (run (take 2 revert_requests) empty_db)) = [CANCELADO]
   \<and> map status (appointments (run revert_requests empty_db)) = [AGENDADO]
   \<and> map appointment_id (appointments (run (take 2 revert_requests) empty_db)) = [1]
   \<and> map appointment_id (appointments (run revert_requests empty_db)) = [1]"
  by (simp add: revert_requests_def run_def empty_db_def example_defs create_appointment_def
      update_appointment_def cancel_appointment_def Let_def new_appointment_def next_id_def
      dict_exclude_unset_def slot_taken_def)

section \<open>Cancellation and the slot\<close>

lemma find_distinct_key:
  "distinct (map f xs) \<Longrightarrow> a \<in> set xs \<Longrightarrow> find (\<lambda>x. f x = f a) xs = Some a"
  by (induction xs) (auto simp: image_iff)

text \<open>
  The ids of the stored appointments stay distinct under every request: a creation takes
  a fresh id, an update and a cancellation keep the ids.
\<close>

lemma handle_distinct_ids:
  assumes "distinct (map appointment_id (appointments db))"
  shows "distinct (map appointment_id (appointments (handle r db)))"
proof -
  obtain u q where r: "r = (u, q)" by (cases r)
  have same: "map appointment_id (appointments (handle r db)) = map appointment_id (appointments db)"
    if "length (appointments (handle r db)) = length (appointments db)"
    using that handle_rows [of db r] by (auto simp: list_eq_iff_nth_eq)
  show ?thesis
  proof (cases q)
    case (Create d)
    show ?thesis
      unfolding r Create using assms next_id_fresh [of "appointments db"]
      by (auto simp: create_appointment_def Let_def new_appointment_def split: option.splits)
  next
    case (Update aid upd)
    have "length (appointments (handle r db)) = length (appointments db)"
      unfolding r Update
      by (auto simp: update_appointment_def Let_def write_back_length split: option.splits)
    from same [OF this] assms show ?thesis by simp
  next
    case (Cancel aid)
    have "length (appointments (handle r db)) = length (appointments db)"
      unfolding r Cancel
      by (auto simp: cancel_appointment_def Let_def write_back_length split: option.splits)
    from same [OF this] assms show ?thesis by simp
  qed
qed

text \<open>
  C9: canceling an appointment frees its slot. Let the stored appointments have distinct
  ids (the id is the key of the table), let \<open>a\<close> be a stored appointment whose time is a
  slot label, as the data model has it, and let no other stored appointment be AGENDADO
  at the practitioner, date and time of \<open>a\<close>. Then cancel succeeds on \<open>a\<close>; afterwards the
  time of \<open>a\<close> is in the available-slots result for its date and practitioner; and a
  create for the same practitioner, date and time, by any caller and for any patient,
  succeeds.
\<close>

theorem cancel_frees_slot:
  assumes "distinct (map appointment_id (appointments db))"
      and "a \<in> set (appointments db)"
      and "\<forall>b \<in> set (appointments db). b \<noteq> a \<longrightarrow>
             \<not> (psychologist_id b = psychologist_id a \<and> date b = date a \<and>
                time b = time a \<and> status b = AGENDADO)"
      and "slot_label (time a)"
  shows "\<exists>db' mails.
           cancel_appointment (appointment_id a) current_user db = Inr (cancel_message, db', mails) \<and>
           time a \<in> set (get_available_slots (date a) (psychologist_id a) db') \<and>
           (\<exists>r. create_appointment
                  \<lparr>patient_id = p, psychologist_id = psychologist_id a, date = date a,
                   time = time a\<rparr> other_user db' = Inr r)"
proof -
  let ?xs = "appointments db"
  let ?a' = "a\<lparr>status := CANCELADO\<rparr>"
  let ?d = "\<lparr>patient_id = p, psychologist_id = psychologist_id a, date = date a, time = time a\<rparr>"
  from assms(1,2) have found: "find (\<lambda>x. appointment_id x = appointment_id a) ?xs = Some a"
    by (rule find_distinct_key)
  from write_back_list_update [OF found, of ?a']
  obtain i where i: "i < length ?xs" "?xs ! i = a"
    "write_back (\<lambda>x. appointment_id x = appointment_id a) ?a' ?xs = ?xs[i := ?a']"
    by blast
  define db' where "db' = db\<lparr>appointments := ?xs[i := ?a']\<rparr>"
  from assms(1) have dist: "distinct ?xs" by (rule distinct_map [THEN iffD1, THEN conjunct1])
  have rows: "set (appointments db') = insert ?a' (set ?xs - {a})"
    using set_update_distinct [OF dist i(1), of ?a'] i(2) by (simp add: db'_def)
  have free: "\<not> (psychologist_id b = psychologist_id a \<and> date b = date a \<and>
                time b = time a \<and> status b = AGENDADO)"
    if "b \<in> set (appointments db')" for b
    using that assms(3) unfolding rows by auto
  obtain mails where res:
    "cancel_appointment (appointment_id a) current_user db = Inr (cancel_message, db', mails)"
    using found i(3) by (simp add: cancel_appointment_def Let_def db'_def)
  have "time a \<notin> set (map time (filter (\<lambda>x. date x = date a \<and> psychologist_id x = psychologist_id a
           \<and> status x = AGENDADO) (appointments db')))"
    using free by auto
  with assms(4) have slots: "time a \<in> set (get_available_slots (date a) (psychologist_id a) db')"
    by (simp add: get_available_slots_def Let_def slot_label_def)
  have "find (slot_taken ?d) (appointments db') = None"
    using free by (auto simp: find_None_iff slot_taken_def)
  then have "\<exists>r. create_appointment ?d other_user db' = Inr r"
    by (simp add: create_appointment_def Let_def)
  with res slots show ?thesis by blast
qed

lemma cancel_example:
  "cancel_appointment 4 dr_five db_example =
     Inr (cancel_message,
          db_example\<lparr>appointments := [appt1, appt2, appt3, appt4\<lparr>status := CANCELADO\<rparr>, appt5]\<rparr>,
          [send_email_appointment_canceled ''ana@example.org'' ''Ana'' ''Bia''])"
  by (simp add: cancel_appointment_def example_defs Let_def)

theorem cancel_frees_slot_witness:
  "cancel_appointment 4 dr_five db_example =
     Inr (cancel_message,
          db_example\<lparr>appointments := [appt1, appt2, appt3, appt4\<lparr>status := CANCELADO\<rparr>, appt5]\<rparr>,
          [send_email_appointment_canceled ''ana@example.org'' ''Ana'' ''Bia''])
   \<and> ''14:00'' \<in> set (get_available_slots ''2025-01-12'' 2
        (db_example\<lparr>appointments := [appt1, appt2, appt3, appt4\<lparr>status := CANCELADO\<rparr>, appt5]\<rparr>))
   \<and> (\<exists>r. create_appointment
            \<lparr>patient_id = 3, psychologist_id = 2, date = ''2025-01-12'', time = ''14:00''\<rparr>
            user_seven
            (db_example\<lparr>appointments := [appt1, appt2, appt3, appt4\<lparr>status := CANCELADO\<rparr>, appt5]\<rparr>)
          = Inr r)"
proof -
  have d: "distinct (map appointment_id (appointments db_example))"
    by (simp add: example_defs)
  have m: "appt4 \<in> set (appointments db_example)" by (simp add: example_defs)
  have o: "\<forall>b \<in> set (appointments db_example). b \<noteq> appt4 \<longrightarrow>
             \<not> (psychologist_id b = psychologist_id appt4 \<and> date b = date appt4 \<and>
                time b = time appt4 \<and> status b = AGENDADO)"
    by (simp add: example_defs)
  have l: "slot_label (time appt4)"
    by (simp add: example_defs slot_label_def all_slots_def)
  have f: "appointment_id appt4 = 4" "time appt4 = ''14:00''" "date appt4 = ''2025-01-12''"
    "psychologist_id appt4 = 2"
    by (simp_all add: example_defs)
  from cancel_frees_slot [OF d m o l, of dr_five 3 user_seven]
  obtain db' mails where r:
    "cancel_appointment (appointment_id appt4) dr_five db_example =
       Inr (cancel_message, db', mails)"
    "time appt4 \<in> set (get_available_slots (date appt4) (psychologist_id appt4) db')"
    "\<exists>r. create_appointment
            \<lparr>patient_id = 3, psychologist_id = psychologist_id appt4, date = date appt4,
             time = time appt4\<rparr> user_seven db' = Inr r"
    by blast
  from r(1) cancel_example f(1)
  have db': "db' = db_example\<lparr>appointments :=
                     [appt1, appt2, appt3, appt4\<lparr>status := CANCELADO\<rparr>, appt5]\<rparr>"
    by simp
  from r(2,3) show ?thesis
    unfolding db' f(2,3,4) using cancel_example by simp
qed

end
